theory Spec2Isabelle
  imports Complex_Main "HOL-Library.Sublist"
begin

section \<open>Data model of \<open>src/lib/live-api-client.ts\<close>\<close>

text \<open>
  The SDK types (\<open>Part\<close>, \<open>Blob\<close>, \<open>FunctionCall\<close>, \<open>FunctionResponse\<close>,
  \<open>LiveServerMessage\<close>, ...) are objects whose fields are all optional; an absent
  field is \<open>None\<close>. Only the fields the client reads or writes are kept. JSON
  values the client never inspects (\<open>args\<close>, \<open>response\<close>) are strings.
\<close>

type_synonym bytes = "nat list"

datatype js_error = JsError string

record blob =
  mimeType :: "string option"
  data :: "string option"

record function_call =
  fc_id :: "string option"
  fc_name :: "string option"
  fc_args :: "string option"

record function_response =
  response :: "string option"
  fr_id :: "string option"
  fr_name :: "string option"

text \<open>\<open>part_text\<close> is the field \<open>text\<close> of a \<open>Part\<close>.\<close>

record part =
  part_text :: "string option"
  inlineData :: "blob option"
  functionResponse :: "function_response option"

record content =
  parts :: "part list option"
  role :: "string option"

text \<open>
  \<open>LiveServerContent\<close>: the client tests the presence of the keys
  (\<open>"interrupted" in serverContent\<close>), not their values, so \<open>None\<close> is an absent
  key and \<open>Some b\<close> a present key with value \<open>b\<close>.
\<close>

record live_server_content =
  interrupted :: "bool option"
  turnComplete :: "bool option"
  modelTurn :: "content option"

record live_server_tool_call =
  functionCalls :: "function_call list option"

record live_server_message =
  setupComplete :: "unit option"
  toolCall :: "live_server_tool_call option"
  toolCallCancellation :: "string list option"
  serverContent :: "live_server_content option"

text \<open>
  \<open>LiveConnectConfig\<close>, with the fields of the default configuration; the client
  stores and forwards it without looking inside.
\<close>

record live_connect_config =
  mediaResolution :: "string option"
  triggerTokens :: "string option"
  targetTokens :: "string option"

text \<open>\<open>LiveAPIEvent["type"]\<close>, in the order of the union.\<close>

datatype event_type =
    Open | Close | Error | Content | Audio | Toolcall | Toolcallcancellation
  | Interrupted | Turncomplete | Setupcomplete
  | Client_send | Client_realtimeInput | Client_toolResponse

text \<open>
  \<open>LiveAPIEvent.data\<close> has type \<open>any\<close>; these are the shapes the client puts
  there. \<open>NoData\<close> is \<open>undefined\<close>.
\<close>

datatype event_data =
    NoData
  | ErrorData string js_error
  | CloseReason string
  | CloseData string int
  | ToolCallData live_server_tool_call
  | ToolCallCancellationData "string list"
  | AudioData nat
  | ContentData "part list"
  | ClientSendData "part list" bool
  | RealtimeInputData string
  | ToolResponseData "function_response list"

record live_api_event =
  ev_type :: event_type
  timestamp :: nat
  ev_data :: event_data

record live_api_state =
  connected :: bool
  muted :: bool
  inVolume :: real
  outVolume :: real
  events :: "live_api_event list"
  model :: string
  config :: live_connect_config

text \<open>
  A \<open>CallableTool\<close> is its \<open>callTool\<close> method: the parts it resolves to, or the
  error it rejects with.
\<close>

type_synonym callable_tool = "function_call list \<Rightarrow> js_error + part list"

text \<open>
  The collaborators are modelled by the calls they receive, in order. A session
  handle is the number the transport gave the session.
\<close>

type_synonym session_handle = nat

datatype transport_call =
    LiveConnect string live_connect_config
  | SendClientContent session_handle "part list" bool
  | SendRealtimeInput session_handle blob
  | SendToolResponse session_handle "function_response list"
  | CloseSession session_handle

datatype streamer_call = AddPCM16 bytes | StopStreamer

datatype recorder_call = StartRecorder | StopRecorder

text \<open>
  The client object. \<open>session\<close>, \<open>audioStreamer\<close>, \<open>audioRecorder\<close>,
  \<open>state\<close> (the field \<open>_state\<close>), \<open>onStateChange\<close> and \<open>tools\<close> are its
  fields; a collaborator that is \<open>null\<close> or \<open>undefined\<close> is \<open>None\<close>, one that
  exists holds the calls made on it. \<open>transport\<close> is the calls made on the
  \<open>GoogleGenAI\<close> client and its sessions. \<open>new Date()\<close> reads
  \<open>date_source\<close> at \<open>date_reads\<close>, which counts the readings so far.
\<close>

record client =
  session :: "session_handle option"
  audioStreamer :: "streamer_call list option"
  audioRecorder :: "recorder_call list"
  state :: live_api_state
  onStateChange :: "live_api_state list option"
  tools :: "callable_tool list"
  transport :: "transport_call list"
  date_source :: "nat \<Rightarrow> nat"
  date_reads :: nat

section \<open>State updates and the event log\<close>

text \<open>
  \<open>updateState(updates)\<close>: \<open>updates\<close> is the record update that
  \<open>{ ...this._state, ...updates }\<close> performs; the listener, when there is one,
  receives the new state.
\<close>

definition updateState :: "(live_api_state \<Rightarrow> live_api_state) \<Rightarrow> client \<Rightarrow> client" where
  "updateState updates c =
     (let s = updates (state c) in
      c\<lparr>state := s,
        onStateChange := (case onStateChange c of None \<Rightarrow> None | Some calls \<Rightarrow> Some (calls @ [s]))\<rparr>)"

text \<open>\<open>xs.slice(-n)\<close>: the last \<open>n\<close> elements, all of them when there are fewer.\<close>

definition slice_last :: "nat \<Rightarrow> 'a list \<Rightarrow> 'a list" where
  "slice_last n xs = drop (length xs - n) xs"

text \<open>The array that \<open>addEvent\<close> stores, from the old one and the new event.\<close>

definition log_append :: "live_api_event list \<Rightarrow> live_api_event \<Rightarrow> live_api_event list" where
  "log_append es e =
     (let newEvents = es @ [e] in
      if length newEvents > 200 then slice_last 150 newEvents else newEvents)"

definition addEvent :: "event_type \<Rightarrow> event_data \<Rightarrow> client \<Rightarrow> client" where
  "addEvent ty d c =
     (let event = \<lparr>ev_type = ty, timestamp = date_source c (date_reads c), ev_data = d\<rparr>;
          c1 = c\<lparr>date_reads := date_reads c + 1\<rparr>
      in updateState (\<lambda>s. s\<lparr>events := log_append (events (state c)) event\<rparr>) c1)"

text \<open>A sequence of appends, first to last.\<close>

fun addEvents :: "(event_type \<times> event_data) list \<Rightarrow> client \<Rightarrow> client" where
  "addEvents [] c = c"
| "addEvents ((ty, d) # rest) c = addEvents rest (addEvent ty d c)"

text \<open>
  The constructor: \<open>tools\<close> is \<open>options.tools || []\<close>, \<open>listener\<close> tells
  whether \<open>options.onStateChange\<close> was given, \<open>clock\<close> is the wall clock.
\<close>

definition default_config :: live_connect_config where
  "default_config =
     \<lparr>mediaResolution = Some ''MEDIA_RESOLUTION_MEDIUM'',
      triggerTokens = Some ''25600'', targetTokens = Some ''12800''\<rparr>"

definition new_client :: "callable_tool list \<Rightarrow> bool \<Rightarrow> (nat \<Rightarrow> nat) \<Rightarrow> client" where
  "new_client ts listener clock =
     \<lparr>session = None, audioStreamer = None, audioRecorder = [],
      state = \<lparr>connected = False, muted = False, inVolume = 0, outVolume = 0, events = [],
               model = ''models/gemini-2.5-flash-preview-native-audio-dialog'',
               config = default_config\<rparr>,
      onStateChange = (if listener then Some [] else None),
      tools = ts, transport = [], date_source = clock, date_reads = 0\<rparr>"

section \<open>Collaborator calls\<close>

text \<open>
  \<open>this.audioRecorder\<close> is assigned in the constructor and never cleared, so
  \<open>this.audioRecorder?.start()\<close> always calls. \<open>this.audioStreamer?.stop()\<close>
  calls only once the streamer exists.
\<close>

definition recorder_start :: "client \<Rightarrow> client" where
  "recorder_start c = c\<lparr>audioRecorder := audioRecorder c @ [StartRecorder]\<rparr>"

definition recorder_stop :: "client \<Rightarrow> client" where
  "recorder_stop c = c\<lparr>audioRecorder := audioRecorder c @ [StopRecorder]\<rparr>"

definition streamer_call :: "streamer_call \<Rightarrow> client \<Rightarrow> client" where
  "streamer_call x c =
     (case audioStreamer c of
        None \<Rightarrow> c
      | Some calls \<Rightarrow> c\<lparr>audioStreamer := Some (calls @ [x])\<rparr>)"

definition transport_call :: "transport_call \<Rightarrow> client \<Rightarrow> client" where
  "transport_call x c = c\<lparr>transport := transport c @ [x]\<rparr>"

definition initAudioStreamer :: "client \<Rightarrow> client" where
  "initAudioStreamer c =
     (case audioStreamer c of None \<Rightarrow> c\<lparr>audioStreamer := Some []\<rparr> | Some _ \<Rightarrow> c)"

section \<open>Connection lifecycle\<close>

definition setConnected :: "bool \<Rightarrow> client \<Rightarrow> client" where
  "setConnected v c =
     (let c1 = updateState (\<lambda>s. s\<lparr>connected := v\<rparr>) c in
      if v \<and> \<not> muted (state c1) then recorder_start c1 else recorder_stop c1)"

text \<open>
  \<open>connect\<close> is asynchronous: it runs up to the call of
  \<open>this.client.live.connect\<close> (\<open>connect_begin\<close>), and resumes when the
  transport has settled that call with a session or an error (\<open>connect_end\<close>).
  Between the two, the client is connecting and any other operation or callback
  may run. \<open>connect_begin\<close> returns \<open>Some False\<close> when \<open>connect\<close> has
  returned \<open>false\<close> at once and \<open>None\<close> when it waits for the transport.
  \<open>model || this._state.model\<close> takes the state's model for an absent or empty
  \<open>model\<close>.
\<close>

definition connect_begin ::
  "string option \<Rightarrow> live_connect_config option \<Rightarrow> client \<Rightarrow> bool option \<times> client" where
  "connect_begin m cfg c =
     (if connected (state c) then (Some False, c)
      else
        let c1 = initAudioStreamer c;
            c2 = updateState
                   (\<lambda>s. s\<lparr>model := (case m of None \<Rightarrow> model (state c1)
                                       | Some x \<Rightarrow> if x = [] then model (state c1) else x),
                           config := (case cfg of None \<Rightarrow> config (state c1) | Some g \<Rightarrow> g)\<rparr>)
                   c1
        in (None, transport_call (LiveConnect (model (state c2)) (config (state c2))) c2))"

definition connect_end :: "js_error + session_handle \<Rightarrow> client \<Rightarrow> bool \<times> client" where
  "connect_end r c =
     (case r of
        Inr h \<Rightarrow> (True, c\<lparr>session := Some h\<rparr>)
      | Inl e \<Rightarrow> (False, addEvent Error (ErrorData ''Failed to connect'' e) c))"

text \<open>\<open>connect\<close> when nothing else runs while it waits.\<close>

definition connect ::
  "string option \<Rightarrow> live_connect_config option \<Rightarrow> js_error + session_handle \<Rightarrow> client
     \<Rightarrow> bool \<times> client" where
  "connect m cfg r c =
     (case connect_begin m cfg c of
        (Some b, c1) \<Rightarrow> (b, c1)
      | (None, c1) \<Rightarrow> connect_end r c1)"

definition disconnect :: "client \<Rightarrow> bool \<times> client" where
  "disconnect c =
     (case session c of
        None \<Rightarrow> (False, c)
      | Some h \<Rightarrow>
          let c1 = transport_call (CloseSession h) c;
              c2 = c1\<lparr>session := None\<rparr>;
              c3 = setConnected False c2;
              c4 = recorder_stop c3;
              c5 = streamer_call StopStreamer c4
          in (True, addEvent Close (CloseReason ''User disconnected'') c5))"

definition onOpen :: "client \<Rightarrow> client" where
  "onOpen c = addEvent Open NoData (setConnected True c)"

text \<open>\<open>onError(e)\<close>: \<open>msg\<close> is \<open>e.message\<close>.\<close>

definition onError :: "string \<Rightarrow> js_error \<Rightarrow> client \<Rightarrow> client" where
  "onError msg e c = addEvent Error (ErrorData msg e) c"

definition onClose :: "string \<Rightarrow> int \<Rightarrow> client \<Rightarrow> client" where
  "onClose reason code c = addEvent Close (CloseData reason code) (setConnected False c)"

section \<open>Outbound operations\<close>

definition setMuted :: "bool \<Rightarrow> client \<Rightarrow> client" where
  "setMuted m c =
     (let c1 = updateState (\<lambda>s. s\<lparr>muted := m\<rparr>) c in
      if connected (state c1) then (if m then recorder_stop c1 else recorder_start c1)
      else c1)"

definition sendText :: "string \<Rightarrow> bool \<Rightarrow> client \<Rightarrow> client" where
  "sendText txt tc c =
     (case session c of
        None \<Rightarrow> c
      | Some h \<Rightarrow>
          let ps = [\<lparr>part_text = Some txt, inlineData = None, functionResponse = None\<rparr>];
              c1 = transport_call (SendClientContent h ps tc) c
          in addEvent Client_send (ClientSendData ps tc) c1)"

text \<open>\<open>s.includes(sub)\<close> and \<open>s.startsWith(p)\<close> on strings.\<close>

fun js_includes :: "string \<Rightarrow> string \<Rightarrow> bool" where
  "js_includes [] sub = (sub = [])"
| "js_includes (x # xs) sub = (prefix sub (x # xs) \<or> js_includes xs sub)"

definition startsWith :: "string \<Rightarrow> string \<Rightarrow> bool" where
  "startsWith s p = prefix p s"

text \<open>
  A chunk of \<open>sendRealtimeInput\<close> has both fields; it is sent as the \<open>media\<close>
  blob. The loop carries \<open>hasAudio\<close> and \<open>hasVideo\<close>.
\<close>

record media_chunk =
  chunk_mimeType :: string
  chunk_data :: string

definition media_blob :: "media_chunk \<Rightarrow> blob" where
  "media_blob ch = \<lparr>mimeType = Some (chunk_mimeType ch), data = Some (chunk_data ch)\<rparr>"

fun send_chunks ::
  "session_handle \<Rightarrow> media_chunk list \<Rightarrow> bool \<times> bool \<Rightarrow> client \<Rightarrow> (bool \<times> bool) \<times> client" where
  "send_chunks h [] flags c = (flags, c)"
| "send_chunks h (ch # rest) (hasAudio, hasVideo) c =
     (let c1 = transport_call (SendRealtimeInput h (media_blob ch)) c;
          hasAudio1 = (if js_includes (chunk_mimeType ch) ''audio'' then True else hasAudio);
          hasVideo1 = (if js_includes (chunk_mimeType ch) ''image'' then True else hasVideo)
      in send_chunks h rest (hasAudio1, hasVideo1) c1)"

definition mediaType_of :: "bool \<Rightarrow> bool \<Rightarrow> string" where
  "mediaType_of hasAudio hasVideo =
     (if hasAudio \<and> hasVideo then ''audio+video''
      else if hasAudio then ''audio''
      else if hasVideo then ''video''
      else ''unknown'')"

definition sendRealtimeInput :: "media_chunk list \<Rightarrow> client \<Rightarrow> client" where
  "sendRealtimeInput chunks c =
     (case session c of
        None \<Rightarrow> c
      | Some h \<Rightarrow>
          (case send_chunks h chunks (False, False) c of
             ((hasAudio, hasVideo), c1) \<Rightarrow>
               addEvent Client_realtimeInput (RealtimeInputData (mediaType_of hasAudio hasVideo)) c1))"

definition setModel :: "string \<Rightarrow> client \<Rightarrow> client" where
  "setModel m c = updateState (\<lambda>s. s\<lparr>model := m\<rparr>) c"

definition destroy :: "client \<Rightarrow> client" where
  "destroy c =
     (let c1 = snd (disconnect c);
          c2 = recorder_stop c1;
          c3 = streamer_call StopStreamer c2
      in c3\<lparr>tools := []\<rparr>)"

section \<open>Audio capture callbacks\<close>

text \<open>The listeners that \<open>setupAudioRecorder\<close> registers for "data" and "volume".\<close>

definition on_recorder_data :: "string \<Rightarrow> client \<Rightarrow> client" where
  "on_recorder_data base64 c =
     (if connected (state c) \<and> \<not> muted (state c)
      then sendRealtimeInput [\<lparr>chunk_mimeType = ''audio/pcm;rate=16000'', chunk_data = base64\<rparr>] c
      else c)"

definition on_recorder_volume :: "real \<Rightarrow> client \<Rightarrow> client" where
  "on_recorder_volume volume c = updateState (\<lambda>s. s\<lparr>inVolume := volume\<rparr>) c"

section \<open>Tool calls\<close>

text \<open>
  The loop over \<open>this.tools\<close>: each tool gets the whole batch and is awaited
  before the next; a rejection leaves the loop for the \<open>catch\<close>. The awaits are
  taken as one step: nothing else runs on the client while the tools work.
\<close>

fun callTools :: "callable_tool list \<Rightarrow> function_call list \<Rightarrow> part list \<Rightarrow> js_error + part list" where
  "callTools [] fcs responseParts = Inr responseParts"
| "callTools (tool # rest) fcs responseParts =
     (case tool fcs of
        Inl e \<Rightarrow> Inl e
      | Inr ps \<Rightarrow> callTools rest fcs (responseParts @ ps))"

definition toFunctionResponses :: "part list \<Rightarrow> function_response list" where
  "toFunctionResponses responseParts =
     map (\<lambda>p. \<lparr>response = response (the (functionResponse p)),
               fr_id = fr_id (the (functionResponse p)),
               fr_name = fr_name (the (functionResponse p))\<rparr>)
       (filter (\<lambda>p. functionResponse p \<noteq> None) responseParts)"

text \<open>
  What \<open>handleToolCalls\<close> does with the collected parts once the tools have
  been awaited. \<open>this.session.sendToolResponse\<close> reads \<open>this.session\<close> at
  that moment: on \<open>null\<close> it raises a \<open>TypeError\<close>, which the \<open>catch\<close>
  logs like a tool's rejection.
\<close>

definition handleToolCalls_send :: "part list \<Rightarrow> client \<Rightarrow> client" where
  "handleToolCalls_send responseParts c =
     (if length responseParts > 0 then
        (let functionResponses = toFunctionResponses responseParts in
         if length functionResponses > 0 then
           (case session c of
              None \<Rightarrow> addEvent Error (ErrorData ''Tool call failed'' (JsError ''TypeError'')) c
            | Some h \<Rightarrow>
                addEvent Client_toolResponse (ToolResponseData functionResponses)
                  (transport_call (SendToolResponse h functionResponses) c))
         else c)
      else c)"

definition handleToolCalls :: "function_call list \<Rightarrow> client \<Rightarrow> client" where
  "handleToolCalls fcs c =
     (case session c of
        None \<Rightarrow> c
      | Some h \<Rightarrow>
          if length (tools c) = 0 then c
          else
            (case callTools (tools c) fcs [] of
               Inl e \<Rightarrow> addEvent Error (ErrorData ''Tool call failed'' e) c
             | Inr responseParts \<Rightarrow> handleToolCalls_send responseParts c))"

text \<open>
  \<open>handleToolCalls\<close> is asynchronous, as \<open>connect\<close> is: it runs up to the
  awaits of the tools (\<open>handleToolCalls_begin\<close>, \<open>None\<close> when it has returned
  at the guard, else the outcome the tools will settle with) and resumes with
  that outcome (\<open>handleToolCalls_end\<close>). Between the two any other operation
  may run; \<open>handleToolCalls\<close> above is the two with nothing in between.
\<close>

definition handleToolCalls_begin ::
  "function_call list \<Rightarrow> client \<Rightarrow> (js_error + part list) option" where
  "handleToolCalls_begin fcs c =
     (case session c of
        None \<Rightarrow> None
      | Some h \<Rightarrow> if length (tools c) = 0 then None else Some (callTools (tools c) fcs []))"

definition handleToolCalls_end :: "js_error + part list \<Rightarrow> client \<Rightarrow> client" where
  "handleToolCalls_end r c =
     (case r of
        Inl e \<Rightarrow> addEvent Error (ErrorData ''Tool call failed'' e) c
      | Inr responseParts \<Rightarrow> handleToolCalls_send responseParts c)"

section \<open>Inbound dispatch\<close>

text \<open>
  lodash's \<open>difference(xs, ys)\<close>: the elements of \<open>xs\<close> that are not in \<open>ys\<close>, in
  the order of \<open>xs\<close>. lodash compares objects by identity; \<open>onMessage\<close> removes a
  sublist that a predicate on the parts' contents selected from the same array, for
  which identity and equality of contents remove the same elements.
\<close>

definition difference :: "'a list \<Rightarrow> 'a list \<Rightarrow> 'a list" where
  "difference xs ys = filter (\<lambda>x. x \<notin> set ys) xs"

definition is_audio_part :: "part \<Rightarrow> bool" where
  "is_audio_part p =
     (case inlineData p of
        None \<Rightarrow> False
      | Some b \<Rightarrow> (case mimeType b of None \<Rightarrow> False | Some m \<Rightarrow> startsWith m ''audio/pcm''))"

text \<open>
  \<open>base64s.forEach\<close>: \<open>decode\<close> is \<open>base64ToArrayBuffer\<close> of \<open>./utils\<close>, taken
  as given. A missing or empty string is skipped (\<open>if (b64)\<close>).
\<close>

fun play_audio :: "(string \<Rightarrow> bytes) \<Rightarrow> string option list \<Rightarrow> client \<Rightarrow> client" where
  "play_audio decode [] c = c"
| "play_audio decode (b64 # rest) c =
     (case b64 of
        None \<Rightarrow> play_audio decode rest c
      | Some s \<Rightarrow>
          if s = [] then play_audio decode rest c
          else
            let d = decode s;
                c1 = streamer_call (AddPCM16 d) c
            in play_audio decode rest (addEvent Audio (AudioData (length d)) c1))"

definition on_modelTurn :: "(string \<Rightarrow> bytes) \<Rightarrow> content \<Rightarrow> client \<Rightarrow> client" where
  "on_modelTurn decode mt c =
     (let ps = (case parts mt of None \<Rightarrow> [] | Some xs \<Rightarrow> xs);
          audioParts = filter is_audio_part ps;
          base64s = map (\<lambda>p. case inlineData p of None \<Rightarrow> None | Some b \<Rightarrow> data b) audioParts;
          otherParts = difference ps audioParts;
          c1 = play_audio decode base64s c
      in if length otherParts \<noteq> 0 then addEvent Content (ContentData otherParts) c1 else c1)"

definition onMessage :: "(string \<Rightarrow> bytes) \<Rightarrow> live_server_message \<Rightarrow> client \<Rightarrow> client" where
  "onMessage decode message c =
     (if setupComplete message \<noteq> None then addEvent Setupcomplete NoData c
      else
        (case toolCall message of
           Some tc \<Rightarrow>
             (let c1 = addEvent Toolcall (ToolCallData tc) c in
              case functionCalls tc of
                None \<Rightarrow> c1
              | Some fcs \<Rightarrow> if length (tools c1) > 0 then handleToolCalls fcs c1 else c1)
         | None \<Rightarrow>
             (case toolCallCancellation message of
                Some ids \<Rightarrow> addEvent Toolcallcancellation (ToolCallCancellationData ids) c
              | None \<Rightarrow>
                  (case serverContent message of
                     None \<Rightarrow> c
                   | Some sc \<Rightarrow>
                       if interrupted sc \<noteq> None
                       then streamer_call StopStreamer (addEvent Interrupted NoData c)
                       else
                         (let c1 = (if turnComplete sc \<noteq> None
                                    then addEvent Turncomplete NoData c else c)
                          in case modelTurn sc of
                               None \<Rightarrow> c1
                             | Some mt \<Rightarrow> on_modelTurn decode mt c1)))))"

section \<open>The state object and the log array as shared objects\<close>

text \<open>
  The client never changes an object it has stored: \<open>updateState\<close> builds a new
  state object and \<open>addEvent\<close> a new array, which is why the sections above can
  take \<open>_state\<close> as a value. What a caller can do to the objects it is handed
  depends on which objects are shared, so here \<open>_state\<close> is a reference into a
  store that holds state objects and log arrays; a state object holds its
  \<open>events\<close> array by reference. Strings, numbers and booleans are values, and
  the store stops at the log array: events and the configuration are kept by
  value. \<open>this_state\<close> is the field \<open>_state\<close>, \<open>listener\<close> the references
  passed to \<open>onStateChange\<close>.
\<close>

type_synonym addr = nat

record state_obj =
  o_connected :: bool
  o_muted :: bool
  o_inVolume :: real
  o_outVolume :: real
  o_events :: addr
  o_model :: string
  o_config :: live_connect_config

datatype obj = StateObj state_obj | EventsArray "live_api_event list"

record store_client =
  store :: "addr \<Rightarrow> obj option"
  fresh :: addr
  this_state :: addr
  listener :: "addr list option"

definition alloc :: "obj \<Rightarrow> store_client \<Rightarrow> addr \<times> store_client" where
  "alloc x sc = (fresh sc, sc\<lparr>store := (store sc)(fresh sc \<mapsto> x), fresh := fresh sc + 1\<rparr>)"

definition get_state_obj :: "addr \<Rightarrow> store_client \<Rightarrow> state_obj option" where
  "get_state_obj a sc = (case store sc a of Some (StateObj s) \<Rightarrow> Some s | _ \<Rightarrow> None)"

definition get_array :: "addr \<Rightarrow> store_client \<Rightarrow> live_api_event list option" where
  "get_array a sc = (case store sc a of Some (EventsArray es) \<Rightarrow> Some es | _ \<Rightarrow> None)"

text \<open>
  \<open>updateState\<close>, \<open>getState\<close>, the getter \<open>events\<close> and \<open>addEvent\<close> on the
  store. \<open>{ ...this._state }\<close> allocates an object with the same field values,
  the reference to the log array among them; \<open>[...events, event]\<close> and
  \<open>slice(-150)\<close> allocate arrays.
\<close>

definition updateState_ref :: "(state_obj \<Rightarrow> state_obj) \<Rightarrow> store_client \<Rightarrow> store_client" where
  "updateState_ref updates sc =
     (case get_state_obj (this_state sc) sc of
        None \<Rightarrow> sc
      | Some s \<Rightarrow>
          (case alloc (StateObj (updates s)) sc of
             (a, sc1) \<Rightarrow>
               sc1\<lparr>this_state := a,
                   listener := (case listener sc1 of None \<Rightarrow> None
                                | Some refs \<Rightarrow> Some (refs @ [a]))\<rparr>))"

definition getState :: "store_client \<Rightarrow> (addr \<times> store_client) option" where
  "getState sc =
     (case get_state_obj (this_state sc) sc of
        None \<Rightarrow> None
      | Some s \<Rightarrow> Some (alloc (StateObj s) sc))"

definition events_getter :: "store_client \<Rightarrow> addr option" where
  "events_getter sc =
     (case get_state_obj (this_state sc) sc of None \<Rightarrow> None | Some s \<Rightarrow> Some (o_events s))"

definition addEvent_ref :: "live_api_event \<Rightarrow> store_client \<Rightarrow> store_client" where
  "addEvent_ref event sc =
     (case events_getter sc of
        None \<Rightarrow> sc
      | Some ea \<Rightarrow>
          (case get_array ea sc of
             None \<Rightarrow> sc
           | Some es \<Rightarrow>
               (case alloc (EventsArray (es @ [event])) sc of
                  (newEvents, sc1) \<Rightarrow>
                    if length (es @ [event]) > 200 then
                      (case alloc (EventsArray (slice_last 150 (es @ [event]))) sc1 of
                         (sliced, sc2) \<Rightarrow> updateState_ref (\<lambda>s. s\<lparr>o_events := sliced\<rparr>) sc2)
                    else updateState_ref (\<lambda>s. s\<lparr>o_events := newEvents\<rparr>) sc1)))"

text \<open>The constructor's \<open>_state\<close>, with its empty log array.\<close>

definition new_store_client :: "bool \<Rightarrow> store_client" where
  "new_store_client l =
     \<lparr>store = [0 \<mapsto> EventsArray [],
               1 \<mapsto> StateObj \<lparr>o_connected = False, o_muted = False, o_inVolume = 0,
                     o_outVolume = 0, o_events = 0,
                     o_model = ''models/gemini-2.5-flash-preview-native-audio-dialog'',
                     o_config = default_config\<rparr>],
      fresh = 2, this_state = 1, listener = (if l then Some [] else None)\<rparr>"

text \<open>
  What code outside the client can do with a reference: assign to the fields of a
  state object (\<open>snapshot.connected = true\<close>) and change an array in place
  (\<open>push\<close>, \<open>pop\<close>, \<open>splice\<close>, \<open>length = 0\<close>, ...).
\<close>

definition assign_field :: "addr \<Rightarrow> (state_obj \<Rightarrow> state_obj) \<Rightarrow> store_client \<Rightarrow> store_client" where
  "assign_field a f sc =
     (case get_state_obj a sc of
        None \<Rightarrow> sc
      | Some s \<Rightarrow> sc\<lparr>store := (store sc)(a \<mapsto> StateObj (f s))\<rparr>)"

definition mutate_array ::
  "addr \<Rightarrow> (live_api_event list \<Rightarrow> live_api_event list) \<Rightarrow> store_client \<Rightarrow> store_client" where
  "mutate_array a f sc =
     (case get_array a sc of
        None \<Rightarrow> sc
      | Some es \<Rightarrow> sc\<lparr>store := (store sc)(a \<mapsto> EventsArray (f es))\<rparr>)"

text \<open>The state that a reference denotes, as a value; the client's own state.\<close>

definition snapshot_at :: "addr \<Rightarrow> store_client \<Rightarrow> live_api_state option" where
  "snapshot_at a sc =
     (case get_state_obj a sc of
        None \<Rightarrow> None
      | Some s \<Rightarrow>
          (case get_array (o_events s) sc of
             None \<Rightarrow> None
           | Some es \<Rightarrow>
               Some \<lparr>connected = o_connected s, muted = o_muted s, inVolume = o_inVolume s,
                     outVolume = o_outVolume s, events = es, model = o_model s,
                     config = o_config s\<rparr>))"

definition internal_state :: "store_client \<Rightarrow> live_api_state option" where
  "internal_state sc = snapshot_at (this_state sc) sc"

text \<open>
  The store is well formed when \<open>_state\<close> refers to a state object whose
  \<open>events\<close> refers to an array, both allocated.
\<close>

definition wf_store :: "store_client \<Rightarrow> bool" where
  "wf_store sc =
     (case get_state_obj (this_state sc) sc of
        None \<Rightarrow> False
      | Some s \<Rightarrow>
          this_state sc < fresh sc \<and> o_events s < fresh sc
          \<and> get_array (o_events s) sc \<noteq> None)"

section \<open>Inputs for the examples\<close>

text \<open>
  A client after the constructor; one whose \<open>connect\<close> waits for the transport;
  one on which the transport has called \<open>onopen\<close> before \<open>connect\<close> resumed;
  that one after \<open>connect\<close> resumed with session 7, and after \<open>connect\<close>
  resumed with a failure.
\<close>

definition idle_client :: client where
  "idle_client = new_client [] True (\<lambda>n. n)"

definition connecting_client :: client where
  "connecting_client = snd (connect_begin None None idle_client)"

definition early_open_client :: client where
  "early_open_client = onOpen connecting_client"

definition connected_client :: client where
  "connected_client = snd (connect_end (Inr 7) early_open_client)"

definition failed_open_client :: client where
  "failed_open_client = snd (connect_end (Inl (JsError ''setup failed'')) early_open_client)"

definition full_log_client :: client where
  "full_log_client =
     idle_client
       \<lparr>state := (state idle_client)
          \<lparr>events := replicate 200 \<lparr>ev_type = Audio, timestamp = 0, ev_data = AudioData 2\<rparr>\<rparr>\<rparr>"

text \<open>A decoder that yields three bytes for every four characters.\<close>

fun example_decode :: "string \<Rightarrow> bytes" where
  "example_decode (a # b # c # d # rest) = [0, 0, 0] @ example_decode rest"
| "example_decode rest = []"

definition audio_part :: "string \<Rightarrow> part" where
  "audio_part b64 =
     \<lparr>part_text = None,
      inlineData = Some \<lparr>mimeType = Some ''audio/pcm;rate=24000'', data = Some b64\<rparr>,
      functionResponse = None\<rparr>"

definition text_part :: "string \<Rightarrow> part" where
  "text_part s = \<lparr>part_text = Some s, inlineData = None, functionResponse = None\<rparr>"

definition serverContent_message :: "live_server_content \<Rightarrow> live_server_message" where
  "serverContent_message sc =
     \<lparr>setupComplete = None, toolCall = None, toolCallCancellation = None,
      serverContent = Some sc\<rparr>"

definition audio_text_audio :: content where
  "audio_text_audio =
     \<lparr>parts = Some [audio_part ''AAAA'', text_part ''hello'', audio_part ''BBBBBBBB''],
      role = Some ''model''\<rparr>"

text \<open>
  A provider of the shape of \<open>WeatherTool.callTool\<close>, the report it computes
  from the arguments left to \<open>respond\<close>: the loop over the calls pushes one
  \<open>functionResponse\<close> part, with the call's name and id, for every call whose
  name is the declared one, and reading the arguments of such a call raises when
  the call has none (\<open>fc.args\<close> is \<open>undefined\<close>), which rejects the promise.
\<close>

fun named_tool_loop ::
  "string \<Rightarrow> (function_call \<Rightarrow> string) \<Rightarrow> function_call list \<Rightarrow> part list
     \<Rightarrow> js_error + part list" where
  "named_tool_loop declared respond [] ps = Inr ps"
| "named_tool_loop declared respond (fc # rest) ps =
     (if fc_name fc = Some declared then
        (case fc_args fc of
           None \<Rightarrow> Inl (JsError ''TypeError'')
         | Some a \<Rightarrow>
             named_tool_loop declared respond rest
               (ps @ [\<lparr>part_text = None, inlineData = None,
                        functionResponse =
                          Some \<lparr>response = Some (respond fc), fr_id = fc_id fc,
                                fr_name = fc_name fc\<rparr>\<rparr>]))
      else named_tool_loop declared respond rest ps)"

definition named_tool :: "string \<Rightarrow> (function_call \<Rightarrow> string) \<Rightarrow> callable_tool" where
  "named_tool declared respond fcs = named_tool_loop declared respond fcs []"

definition weather_call :: "string \<Rightarrow> function_call" where
  "weather_call i = \<lparr>fc_id = Some i, fc_name = Some ''get_weather'', fc_args = Some ''{}''\<rparr>"

text \<open>
  A connected client with two such providers, the second declared as
  \<open>get_weather\<close>; the parts that one resolves with for the calls \<open>a\<close> and
  \<open>b\<close>; the client once \<open>onMessage\<close> has logged the tool call with these two
  calls, and that client after a \<open>disconnect\<close>.
\<close>

definition tool_client :: client where
  "tool_client =
     connected_client
       \<lparr>tools := [named_tool ''render_altair'' (\<lambda>fc. ''rendered''),
                  named_tool ''get_weather'' (\<lambda>fc. ''sunny'')]\<rparr>"

definition weather_answers :: "part list" where
  "weather_answers =
     [\<lparr>part_text = None, inlineData = None, functionResponse =
         Some \<lparr>response = Some ''sunny'', fr_id = Some ''a'', fr_name = Some ''get_weather''\<rparr>\<rparr>,
      \<lparr>part_text = None, inlineData = None, functionResponse =
         Some \<lparr>response = Some ''sunny'', fr_id = Some ''b'', fr_name = Some ''get_weather''\<rparr>\<rparr>]"

definition toolcall_logged_client :: client where
  "toolcall_logged_client =
     addEvent Toolcall
       (ToolCallData \<lparr>functionCalls = Some [weather_call ''a'', weather_call ''b'']\<rparr>)
       tool_client"

definition dropped_session_client :: client where
  "dropped_session_client = snd (disconnect toolcall_logged_client)"

definition toolCall_message :: "function_call list \<Rightarrow> live_server_message" where
  "toolCall_message fcs =
     \<lparr>setupComplete = None, toolCall = Some \<lparr>functionCalls = Some fcs\<rparr>,
      toolCallCancellation = None, serverContent = None\<rparr>"

text \<open>
  A store client that has logged one event, the snapshot that \<open>getState\<close>
  returns for it, and what an outside caller does: push an event, set a field.
\<close>

definition logged_store_client :: store_client where
  "logged_store_client =
     addEvent_ref \<lparr>ev_type = Open, timestamp = 0, ev_data = NoData\<rparr> (new_store_client True)"

definition snapshot_addr :: addr where
  "snapshot_addr = (case getState logged_store_client of None \<Rightarrow> 0 | Some (a, sc) \<Rightarrow> a)"

definition snapshot_store :: store_client where
  "snapshot_store =
     (case getState logged_store_client of
        None \<Rightarrow> logged_store_client
      | Some (a, sc) \<Rightarrow> sc)"

definition intruder :: live_api_event where
  "intruder = \<lparr>ev_type = Error, timestamp = 0, ev_data = NoData\<rparr>"

definition array_push :: "addr \<Rightarrow> live_api_event \<Rightarrow> store_client \<Rightarrow> store_client" where
  "array_push a e sc = mutate_array a (\<lambda>es. es @ [e]) sc"

definition assign_connected :: "addr \<Rightarrow> bool \<Rightarrow> store_client \<Rightarrow> store_client" where
  "assign_connected a v sc = assign_field a (\<lambda>s. s\<lparr>o_connected := v\<rparr>) sc"

section \<open>Frame lemmas\<close>

lemma events_addEvent:
  "events (state (addEvent ty d c)) =
     log_append (events (state c))
       \<lparr>ev_type = ty, timestamp = date_source c (date_reads c), ev_data = d\<rparr>"
  by (simp add: addEvent_def updateState_def Let_def)

lemma addEvent_frame:
  "session (addEvent ty d c) = session c"
  "transport (addEvent ty d c) = transport c"
  "audioStreamer (addEvent ty d c) = audioStreamer c"
  "audioRecorder (addEvent ty d c) = audioRecorder c"
  "tools (addEvent ty d c) = tools c"
  "date_source (addEvent ty d c) = date_source c"
  "date_reads (addEvent ty d c) = date_reads c + 1"
  by (simp_all add: addEvent_def updateState_def Let_def)

lemma streamer_call_frame:
  "state (streamer_call x c) = state c"
  "session (streamer_call x c) = session c"
  "transport (streamer_call x c) = transport c"
  "tools (streamer_call x c) = tools c"
  "date_source (streamer_call x c) = date_source c"
  "date_reads (streamer_call x c) = date_reads c"
  "audioStreamer (streamer_call x c) = map_option (\<lambda>calls. calls @ [x]) (audioStreamer c)"
  by (cases "audioStreamer c"; simp add: streamer_call_def)+

lemma transport_call_frame:
  "state (transport_call x c) = state c"
  "session (transport_call x c) = session c"
  "transport (transport_call x c) = transport c @ [x]"
  "tools (transport_call x c) = tools c"
  "date_source (transport_call x c) = date_source c"
  "date_reads (transport_call x c) = date_reads c"
  "audioStreamer (transport_call x c) = audioStreamer c"
  by (simp_all add: transport_call_def)

section \<open>The example clients, computed\<close>

lemma idle_client_eq:
  "idle_client =
     \<lparr>session = None, audioStreamer = None, audioRecorder = [],
      state = \<lparr>connected = False, muted = False, inVolume = 0, outVolume = 0, events = [],
               model = ''models/gemini-2.5-flash-preview-native-audio-dialog'',
               config = default_config\<rparr>,
      onStateChange = Some [],
      tools = [], transport = [], date_source = (\<lambda>n. n), date_reads = 0\<rparr>"
  by (simp add: idle_client_def new_client_def)

lemma connecting_client_eq:
  "connecting_client =
     idle_client
       \<lparr>audioStreamer := Some [],
        onStateChange := Some [state idle_client],
        transport :=
          [LiveConnect ''models/gemini-2.5-flash-preview-native-audio-dialog'' default_config]\<rparr>"
  by (simp add: connecting_client_def connect_begin_def idle_client_eq initAudioStreamer_def
      updateState_def transport_call_def Let_def)

lemma early_open_client_eq:
  "early_open_client =
     connecting_client
       \<lparr>audioRecorder := [StartRecorder],
        state := (state idle_client)
          \<lparr>connected := True, events := [\<lparr>ev_type = Open, timestamp = 0, ev_data = NoData\<rparr>]\<rparr>,
        onStateChange := Some [state idle_client,
           (state idle_client)\<lparr>connected := True\<rparr>,
           (state idle_client)
             \<lparr>connected := True, events := [\<lparr>ev_type = Open, timestamp = 0, ev_data = NoData\<rparr>]\<rparr>],
        date_reads := 1\<rparr>"
  by (simp add: early_open_client_def onOpen_def setConnected_def updateState_def addEvent_def
      recorder_start_def log_append_def Let_def connecting_client_eq idle_client_eq)

lemma early_open_client_fields:
  "session early_open_client = None"
  "connected (state early_open_client)"
  "\<not> muted (state early_open_client)"
  "audioRecorder early_open_client = [StartRecorder]"
  by (simp_all add: early_open_client_eq connecting_client_eq idle_client_eq)

lemma connected_client_eq: "connected_client = early_open_client\<lparr>session := Some 7\<rparr>"
  by (simp add: connected_client_def connect_end_def)

lemma connected_client_fields:
  "session connected_client = Some 7"
  "connected (state connected_client)"
  "\<not> muted (state connected_client)"
  "events (state connected_client) = [\<lparr>ev_type = Open, timestamp = 0, ev_data = NoData\<rparr>]"
  "audioRecorder connected_client = [StartRecorder]"
  "audioStreamer connected_client = Some []"
  "date_reads connected_client = 1"
  "date_source connected_client = (\<lambda>n. n)"
  "transport connected_client =
     [LiveConnect ''models/gemini-2.5-flash-preview-native-audio-dialog'' default_config]"
  "tools connected_client = []"
  by (simp_all add: connected_client_eq early_open_client_eq connecting_client_eq idle_client_eq)

lemma failed_open_client_fields:
  "session failed_open_client = None"
  "connected (state failed_open_client)"
  "\<not> muted (state failed_open_client)"
  by (simp_all add: failed_open_client_def connect_end_def addEvent_def updateState_def Let_def
      early_open_client_eq connecting_client_eq idle_client_eq)

section \<open>The event log is bounded\<close>

lemma length_log_append_le:
  "length es \<le> 200 \<Longrightarrow> length (log_append es e) \<le> 200"
  by (simp add: log_append_def slice_last_def Let_def)

lemma length_addEvents_le:
  "length (events (state c)) \<le> 200 \<Longrightarrow> length (events (state (addEvents xs c))) \<le> 200"
proof (induction xs arbitrary: c)
  case Nil
  then show ?case by simp
next
  case (Cons x xs)
  obtain ty d where x: "x = (ty, d)" by (cases x)
  have "length (events (state (addEvent ty d c))) \<le> 200"
    using Cons.prems by (simp add: events_addEvent length_log_append_le)
  then show ?case
    using Cons.IH x by simp
qed

text \<open>
  C1. Starting from a log of at most 200 entries (the constructor's log is empty),
  no sequence of \<open>addEvent\<close> calls makes the log longer than 200. The append
  that finds 200 entries stores the last 150 of the 201: the 149 most recent old
  entries, in their order, then the new entry.
\<close>

theorem addEvent_log_bounded:
  "(length (events (state c)) \<le> 200 \<longrightarrow>
      length (events (state (addEvents xs c))) \<le> 200)
   \<and> length (events (state (addEvents xs (new_client ts l clk)))) \<le> 200
   \<and> (length (events (state c)) = 200 \<longrightarrow>
        events (state (addEvent ty d c)) =
          drop 51 (events (state c)) @
            [\<lparr>ev_type = ty, timestamp = date_source c (date_reads c), ev_data = d\<rparr>]
        \<and> length (events (state (addEvent ty d c))) = 150)"
proof (intro conjI impI)
  assume "length (events (state c)) \<le> 200"
  then show "length (events (state (addEvents xs c))) \<le> 200"
    by (rule length_addEvents_le)
next
  have "length (events (state (new_client ts l clk))) \<le> 200"
    by (simp add: new_client_def)
  then show "length (events (state (addEvents xs (new_client ts l clk)))) \<le> 200"
    by (rule length_addEvents_le)
next
  assume "length (events (state c)) = 200"
  then show "events (state (addEvent ty d c)) =
      drop 51 (events (state c)) @
        [\<lparr>ev_type = ty, timestamp = date_source c (date_reads c), ev_data = d\<rparr>]"
    by (simp add: events_addEvent log_append_def slice_last_def Let_def)
next
  assume "length (events (state c)) = 200"
  then show "length (events (state (addEvent ty d c))) = 150"
    by (simp add: events_addEvent log_append_def slice_last_def Let_def)
qed

theorem addEvent_log_bounded_witness:
  "length (events (state full_log_client)) = 200
   \<and> length (events (state (addEvents [(Open, NoData), (Close, NoData)] full_log_client))) \<le> 200
   \<and> length (events (state (addEvent Open NoData full_log_client))) = 150
   \<and> last (events (state (addEvent Open NoData full_log_client))) =
        \<lparr>ev_type = Open, timestamp = 0, ev_data = NoData\<rparr>"
proof -
  have len: "length (events (state full_log_client)) = 200"
    by (simp add: full_log_client_def)
  have cl: "date_source full_log_client (date_reads full_log_client) = 0"
    by (simp add: full_log_client_def idle_client_eq)
  show ?thesis
    using len cl
      addEvent_log_bounded [of full_log_client "[(Open, NoData), (Close, NoData)]"
        "[]" True "\<lambda>n. n" Open NoData]
    by simp
qed

section \<open>Inbound dispatch: model turns\<close>

lemma difference_filter: "difference xs (filter P xs) = filter (\<lambda>x. \<not> P x) xs"
  by (auto simp add: difference_def intro: filter_cong)

lemma is_audio_partI:
  "inlineData p = Some b \<Longrightarrow> mimeType b = Some m \<Longrightarrow> startsWith m ''audio/pcm'' \<Longrightarrow> is_audio_part p"
  by (simp add: is_audio_part_def)

text \<open>
  C2. A server-content message without the interrupted signal whose model turn
  has the parts audio, other, audio (each audio part an inline payload whose media
  type starts with \<open>audio/pcm\<close> and whose data is not empty; the middle part, a
  text part for one, not an audio part): after the turn-complete entry, if the
  message carries that signal, dispatch appends an audio entry with the length of
  the first decoded payload, an audio entry with the length of the second, and
  one content entry whose parts are the middle part alone, in that order, and
  hands the two decoded payloads to the playback sink. The log receives the
  lengths, never the bytes.
\<close>

theorem modelTurn_audio_text_audio:
  assumes msg: "setupComplete message = None" "toolCall message = None"
      "toolCallCancellation message = None" "serverContent message = Some sc"
      "interrupted sc = None" "modelTurn sc = Some mt" "parts mt = Some [a1, t, a2]"
    and a1: "inlineData a1 = Some b1" "mimeType b1 = Some m1" "startsWith m1 ''audio/pcm''"
      "data b1 = Some d1" "d1 \<noteq> []"
    and a2: "inlineData a2 = Some b2" "mimeType b2 = Some m2" "startsWith m2 ''audio/pcm''"
      "data b2 = Some d2" "d2 \<noteq> []"
    and t: "\<not> is_audio_part t"
    and c1: "c1 = (if turnComplete sc = None then c else addEvent Turncomplete NoData c)"
  shows "events (state (onMessage decode message c)) =
           log_append
             (log_append
                (log_append (events (state c1))
                   \<lparr>ev_type = Audio, timestamp = date_source c (date_reads c1),
                    ev_data = AudioData (length (decode d1))\<rparr>)
                \<lparr>ev_type = Audio, timestamp = date_source c (date_reads c1 + 1),
                 ev_data = AudioData (length (decode d2))\<rparr>)
             \<lparr>ev_type = Content, timestamp = date_source c (date_reads c1 + 2),
              ev_data = ContentData [t]\<rparr>
         \<and> audioStreamer (onMessage decode message c) =
             map_option (\<lambda>calls. calls @ [AddPCM16 (decode d1), AddPCM16 (decode d2)])
               (audioStreamer c)"
proof -
  have au: "is_audio_part a1" "is_audio_part a2"
    using a1 a2 by (auto intro: is_audio_partI)
  have om: "onMessage decode message c = on_modelTurn decode mt c1"
    using msg c1 by (auto simp add: onMessage_def)
  have ds: "date_source c1 = date_source c"
    using c1 by (simp add: addEvent_frame)
  have st: "audioStreamer c1 = audioStreamer c"
    using c1 by (simp add: addEvent_frame)
  have fl: "filter is_audio_part [a1, t, a2] = [a1, a2]"
    using au t by simp
  have df: "difference [a1, t, a2] [a1, a2] = [t]"
    using difference_filter [of "[a1, t, a2]" is_audio_part] au t by (simp add: fl)
  have mt: "on_modelTurn decode mt c1 =
      addEvent Content (ContentData [t])
        (addEvent Audio (AudioData (length (decode d2)))
          (streamer_call (AddPCM16 (decode d2))
            (addEvent Audio (AudioData (length (decode d1)))
              (streamer_call (AddPCM16 (decode d1)) c1))))"
    using msg a1 a2 au t by (simp add: on_modelTurn_def df Let_def)
  show ?thesis
    unfolding om mt
    by (cases "audioStreamer c")
       (simp_all add: events_addEvent addEvent_frame streamer_call_frame ds st)
qed

theorem modelTurn_audio_text_audio_witness:
  "events (state (onMessage example_decode
      (serverContent_message
         \<lparr>interrupted = None, turnComplete = None, modelTurn = Some audio_text_audio\<rparr>)
      connected_client)) =
     [\<lparr>ev_type = Open, timestamp = 0, ev_data = NoData\<rparr>,
      \<lparr>ev_type = Audio, timestamp = 1, ev_data = AudioData 3\<rparr>,
      \<lparr>ev_type = Audio, timestamp = 2, ev_data = AudioData 6\<rparr>,
      \<lparr>ev_type = Content, timestamp = 3, ev_data = ContentData [text_part ''hello'']\<rparr>]
   \<and> audioStreamer (onMessage example_decode
      (serverContent_message
         \<lparr>interrupted = None, turnComplete = None, modelTurn = Some audio_text_audio\<rparr>)
      connected_client) = Some [AddPCM16 [0, 0, 0], AddPCM16 [0, 0, 0, 0, 0, 0]]"
  using modelTurn_audio_text_audio [of
      "serverContent_message
         \<lparr>interrupted = None, turnComplete = None, modelTurn = Some audio_text_audio\<rparr>"
      "\<lparr>interrupted = None, turnComplete = None, modelTurn = Some audio_text_audio\<rparr>"
      audio_text_audio "audio_part ''AAAA''" "text_part ''hello''" "audio_part ''BBBBBBBB''"
      "\<lparr>mimeType = Some ''audio/pcm;rate=24000'', data = Some ''AAAA''\<rparr>"
      "''audio/pcm;rate=24000''" "''AAAA''"
      "\<lparr>mimeType = Some ''audio/pcm;rate=24000'', data = Some ''BBBBBBBB''\<rparr>"
      "''audio/pcm;rate=24000''" "''BBBBBBBB''" connected_client connected_client example_decode]
  by (simp add: serverContent_message_def audio_text_audio_def audio_part_def text_part_def
      startsWith_def is_audio_part_def connected_client_fields log_append_def)

section \<open>Inbound dispatch: tool calls\<close>

lemma toFunctionResponses_append:
  "toFunctionResponses (xs @ ys) = toFunctionResponses xs @ toFunctionResponses ys"
  by (simp add: toFunctionResponses_def)

lemma toFunctionResponses_Nil: "toFunctionResponses [] = []"
  by (simp add: toFunctionResponses_def)

text \<open>When no tool rejects, the loop yields the tools' parts, concatenated in order.\<close>

lemma callTools_Inr:
  "\<forall>t \<in> set ts. \<exists>ps. t fcs = Inr ps \<Longrightarrow>
     callTools ts fcs acc = Inr (acc @ concat (map (\<lambda>t. projr (t fcs)) ts))"
  by (induction ts arbitrary: acc) auto

lemma toFunctionResponses_concat_empty:
  "\<forall>t \<in> set ts. toFunctionResponses (projr (t fcs)) = [] \<Longrightarrow>
     toFunctionResponses (concat (map (\<lambda>t. projr (t fcs)) ts)) = []"
  by (induction ts) (simp_all add: toFunctionResponses_append toFunctionResponses_Nil)

text \<open>
  C3. A tool-call message with the function calls \<open>fc1\<close> and \<open>fc2\<close> arrives
  while a session is open. One registered provider \<open>p\<close> answers the batch with
  parts whose function responses are \<open>r1\<close> and \<open>r2\<close>; every other registered
  provider resolves with parts that hold no function response. Then dispatch
  sends exactly one message over the transport, the tool response \<open>[r1, r2]\<close>,
  and the log receives the tool-call entry followed by exactly one tool-response
  entry with the same two responses. The providers' awaits are one step here.
\<close>

theorem toolCall_two_calls_one_response:
  assumes msg: "setupComplete message = None" "toolCall message = Some tc"
      "functionCalls tc = Some [fc1, fc2]"
    and ses: "session c = Some h"
    and ts: "tools c = pre @ [p] @ post"
    and others: "\<forall>t \<in> set (pre @ post). \<exists>ps. t [fc1, fc2] = Inr ps \<and> toFunctionResponses ps = []"
    and p: "p [fc1, fc2] = Inr ps" "toFunctionResponses ps = [r1, r2]"
  shows "transport (onMessage decode message c) = transport c @ [SendToolResponse h [r1, r2]]
       \<and> events (state (onMessage decode message c)) =
           log_append
             (log_append (events (state c))
                \<lparr>ev_type = Toolcall, timestamp = date_source c (date_reads c),
                 ev_data = ToolCallData tc\<rparr>)
             \<lparr>ev_type = Client_toolResponse, timestamp = date_source c (date_reads c + 1),
              ev_data = ToolResponseData [r1, r2]\<rparr>"
proof -
  let ?fcs = "[fc1, fc2]"
  let ?c1 = "addEvent Toolcall (ToolCallData tc) c"
  have all: "\<forall>t \<in> set (tools c). \<exists>ps. t ?fcs = Inr ps"
    using others p ts by auto
  let ?rp = "concat (map (\<lambda>t. projr (t ?fcs)) (tools c))"
  have ct: "callTools (tools c) ?fcs [] = Inr ?rp"
    using callTools_Inr [OF all, of "[]"] by simp
  have oth: "toFunctionResponses (projr (t ?fcs)) = []" if "t \<in> set pre \<union> set post" for t
  proof -
    from others that obtain qs where "t ?fcs = Inr qs" "toFunctionResponses qs = []"
      by auto
    then show ?thesis by simp
  qed
  have e1: "toFunctionResponses (concat (map (\<lambda>t. projr (t ?fcs)) pre)) = []"
    by (rule toFunctionResponses_concat_empty) (simp add: oth)
  have e2: "toFunctionResponses (concat (map (\<lambda>t. projr (t ?fcs)) post)) = []"
    by (rule toFunctionResponses_concat_empty) (simp add: oth)
  have fr: "toFunctionResponses ?rp = [r1, r2]"
    using e1 e2 p by (simp add: ts toFunctionResponses_append)
  have ne: "?rp \<noteq> []"
    using fr toFunctionResponses_Nil by force
  have om: "onMessage decode message c = handleToolCalls ?fcs ?c1"
    using msg ts by (simp add: onMessage_def addEvent_frame Let_def)
  have h: "handleToolCalls ?fcs ?c1 =
     addEvent Client_toolResponse (ToolResponseData [r1, r2])
       (transport_call (SendToolResponse h [r1, r2]) ?c1)"
    using ses ts ct fr ne
    by (simp add: handleToolCalls_def handleToolCalls_send_def addEvent_frame Let_def)
  show ?thesis
    unfolding om h
    by (simp add: events_addEvent addEvent_frame transport_call_frame)
qed

theorem toolCall_two_calls_one_response_witness:
  "transport (onMessage example_decode
       (toolCall_message [weather_call ''a'', weather_call ''b'']) tool_client) =
     [LiveConnect ''models/gemini-2.5-flash-preview-native-audio-dialog'' default_config,
      SendToolResponse 7
        [\<lparr>response = Some ''sunny'', fr_id = Some ''a'', fr_name = Some ''get_weather''\<rparr>,
         \<lparr>response = Some ''sunny'', fr_id = Some ''b'', fr_name = Some ''get_weather''\<rparr>]]
   \<and> events (state (onMessage example_decode
       (toolCall_message [weather_call ''a'', weather_call ''b'']) tool_client)) =
     [\<lparr>ev_type = Open, timestamp = 0, ev_data = NoData\<rparr>,
      \<lparr>ev_type = Toolcall, timestamp = 1,
       ev_data = ToolCallData \<lparr>functionCalls = Some [weather_call ''a'', weather_call ''b'']\<rparr>\<rparr>,
      \<lparr>ev_type = Client_toolResponse, timestamp = 2,
       ev_data = ToolResponseData
         [\<lparr>response = Some ''sunny'', fr_id = Some ''a'', fr_name = Some ''get_weather''\<rparr>,
          \<lparr>response = Some ''sunny'', fr_id = Some ''b'', fr_name = Some ''get_weather''\<rparr>]\<rparr>]"
  using toolCall_two_calls_one_response [of
      "toolCall_message [weather_call ''a'', weather_call ''b'']"
      "\<lparr>functionCalls = Some [weather_call ''a'', weather_call ''b'']\<rparr>"
      "weather_call ''a''" "weather_call ''b''" tool_client 7
      "[named_tool ''render_altair'' (\<lambda>fc. ''rendered'')]"
      "named_tool ''get_weather'' (\<lambda>fc. ''sunny'')" "[]"
      "[\<lparr>part_text = None, inlineData = None, functionResponse =
           Some \<lparr>response = Some ''sunny'', fr_id = Some ''a'', fr_name = Some ''get_weather''\<rparr>\<rparr>,
        \<lparr>part_text = None, inlineData = None, functionResponse =
           Some \<lparr>response = Some ''sunny'', fr_id = Some ''b'', fr_name = Some ''get_weather''\<rparr>\<rparr>]"
      "\<lparr>response = Some ''sunny'', fr_id = Some ''a'', fr_name = Some ''get_weather''\<rparr>"
      "\<lparr>response = Some ''sunny'', fr_id = Some ''b'', fr_name = Some ''get_weather''\<rparr>"
      example_decode]
  by (simp add: toolCall_message_def tool_client_def connected_client_fields named_tool_def
      weather_call_def toFunctionResponses_def log_append_def)

section \<open>Inbound dispatch: interruption\<close>

text \<open>
  A \<open>connect\<close> that reaches the transport, and so registers \<open>onMessage\<close>,
  has created the playback sink.
\<close>

lemma connect_begin_streamer:
  "fst (connect_begin m cfg c) = None \<Longrightarrow> audioStreamer (snd (connect_begin m cfg c)) \<noteq> None"
  by (cases "audioStreamer c")
     (auto simp add: connect_begin_def initAudioStreamer_def updateState_def transport_call_def
        Let_def split: if_splits)

text \<open>
  C4. A server-content message that carries the key \<open>interrupted\<close>, whatever
  else its content carries (\<open>turnComplete\<close>, a model turn with parts): dispatch
  appends one interrupted entry to the log, which the listener is told of and for
  which the clock is read once, and calls \<open>stop\<close> on the playback sink, which
  exists from the first \<open>connect\<close> on. Nothing else of the client changes: no
  other entry is logged and no audio is handed to the sink.
\<close>

theorem interrupted_only_effect:
  assumes "setupComplete message = None" "toolCall message = None"
    "toolCallCancellation message = None" "serverContent message = Some sc"
    "interrupted sc = Some b"
  shows "onMessage decode message c =
           c\<lparr>state := (state c)\<lparr>events := log_append (events (state c))
                 \<lparr>ev_type = Interrupted, timestamp = date_source c (date_reads c), ev_data = NoData\<rparr>\<rparr>,
             onStateChange := map_option (\<lambda>calls. calls @ [(state c)\<lparr>events := log_append (events (state c))
                 \<lparr>ev_type = Interrupted, timestamp = date_source c (date_reads c), ev_data = NoData\<rparr>\<rparr>])
                 (onStateChange c),
             date_reads := date_reads c + 1,
             audioStreamer := map_option (\<lambda>calls. calls @ [StopStreamer]) (audioStreamer c)\<rparr>"
  using assms
  by (cases "onStateChange c"; cases "audioStreamer c")
     (simp_all add: onMessage_def addEvent_def updateState_def streamer_call_def Let_def)

theorem interrupted_only_effect_witness:
  "events (state (onMessage example_decode
      (serverContent_message
         \<lparr>interrupted = Some True, turnComplete = Some True, modelTurn = Some audio_text_audio\<rparr>)
      connected_client)) =
     [\<lparr>ev_type = Open, timestamp = 0, ev_data = NoData\<rparr>,
      \<lparr>ev_type = Interrupted, timestamp = 1, ev_data = NoData\<rparr>]
   \<and> audioStreamer (onMessage example_decode
      (serverContent_message
         \<lparr>interrupted = Some True, turnComplete = Some True, modelTurn = Some audio_text_audio\<rparr>)
      connected_client) = Some [StopStreamer]"
  using interrupted_only_effect [of
      "serverContent_message
         \<lparr>interrupted = Some True, turnComplete = Some True, modelTurn = Some audio_text_audio\<rparr>"
      "\<lparr>interrupted = Some True, turnComplete = Some True, modelTurn = Some audio_text_audio\<rparr>"
      True example_decode connected_client]
  by (simp add: serverContent_message_def connected_client_fields log_append_def)

section \<open>Connection lifecycle\<close>

text \<open>
  C5, as the code has it. \<open>connect\<close> invoked while the client is connected,
  that is while its \<open>connected\<close> flag is set, returns \<open>false\<close> at once and
  leaves the client as it was: no session is requested of the transport, the
  session handle stays, nothing is logged.
\<close>

theorem connect_connected:
  "connected (state c) \<Longrightarrow>
     connect_begin m cfg c = (Some False, c) \<and> connect m cfg r c = (False, c)"
  by (simp add: connect_begin_def connect_def)

theorem connect_connected_witness:
  "connected (state connected_client)
   \<and> connect_begin (Some ''models/other'') None connected_client = (Some False, connected_client)
   \<and> connect None None (Inr 8) connected_client = (False, connected_client)"
proof -
  have h: "connected (state connected_client)"
    by (rule connected_client_fields)
  show ?thesis
    using h connect_connected [OF h, of "Some ''models/other''" None]
      connect_connected [OF h, of None None "Inr 8"]
    by simp
qed

text \<open>
  A client whose first \<open>connect\<close> waits for the transport, before the
  transport has called \<open>onopen\<close>: a second \<open>connect\<close> does not return
  \<open>false\<close>, it requests a second session of the transport.
\<close>

theorem connect_connecting_counterexample:
  "\<not> connected (state connecting_client) \<and> session connecting_client = None
   \<and> transport connecting_client =
       [LiveConnect ''models/gemini-2.5-flash-preview-native-audio-dialog'' default_config]
   \<and> fst (connect_begin None None connecting_client) = None
   \<and> transport (snd (connect_begin None None connecting_client)) =
       [LiveConnect ''models/gemini-2.5-flash-preview-native-audio-dialog'' default_config,
        LiveConnect ''models/gemini-2.5-flash-preview-native-audio-dialog'' default_config]"
  by (simp add: connecting_client_eq idle_client_eq connect_begin_def initAudioStreamer_def
      updateState_def transport_call_def Let_def)

section \<open>Operations without a session\<close>

text \<open>
  An operation invoked with no session handle: \<open>disconnect\<close> returns
  \<open>false\<close> and the client is as before; \<open>sendText\<close>,
  \<open>sendRealtimeInput\<close> and \<open>handleToolCalls\<close> leave the client as before
  as well: no state change, no transport call, no log entry.
\<close>

lemma no_session_noop:
  "session c = None \<Longrightarrow>
     disconnect c = (False, c) \<and> sendText txt tc c = c
     \<and> sendRealtimeInput chunks c = c \<and> handleToolCalls fcs c = c"
  by (simp add: disconnect_def sendText_def sendRealtimeInput_def handleToolCalls_def)

lemma no_session_noop_idle:
  "session idle_client = None
   \<and> disconnect idle_client = (False, idle_client)
   \<and> sendText ''hi'' True idle_client = idle_client
   \<and> sendRealtimeInput
        [\<lparr>chunk_mimeType = ''audio/pcm;rate=16000'', chunk_data = ''AAAA''\<rparr>] idle_client =
       idle_client
   \<and> handleToolCalls [weather_call ''a''] idle_client = idle_client"
proof -
  have s: "session idle_client = None"
    by (simp add: idle_client_eq)
  show ?thesis
    using s no_session_noop [OF s] by simp
qed

text \<open>\<open>handleToolCalls\<close> is its two halves run one after the other.\<close>

lemma handleToolCalls_phases:
  "handleToolCalls fcs c =
     (case handleToolCalls_begin fcs c of
        None \<Rightarrow> c
      | Some r \<Rightarrow> handleToolCalls_end r c)"
  by (simp add: handleToolCalls_def handleToolCalls_begin_def handleToolCalls_end_def
      split: option.splits sum.splits)

text \<open>
  The send of the tool response when the session has been dropped while the
  tools were awaited: the send raises, and the \<open>catch\<close> logs an error entry.
\<close>

lemma handleToolCalls_send_no_session:
  "session c = None \<Longrightarrow> toFunctionResponses responseParts \<noteq> [] \<Longrightarrow>
     handleToolCalls_send responseParts c =
       addEvent Error (ErrorData ''Tool call failed'' (JsError ''TypeError'')) c"
  by (auto simp add: handleToolCalls_send_def toFunctionResponses_def Let_def)

lemma tool_client_fields:
  "session tool_client = Some 7"
  "tools tool_client =
     [named_tool ''render_altair'' (\<lambda>fc. ''rendered''),
      named_tool ''get_weather'' (\<lambda>fc. ''sunny'')]"
  "state tool_client = state connected_client"
  "transport tool_client = transport connected_client"
  "date_reads tool_client = 1"
  "date_source tool_client = (\<lambda>n. n)"
  by (simp_all add: tool_client_def connected_client_fields)

lemma toolcall_logged_client_fields:
  "session toolcall_logged_client = Some 7"
  "tools toolcall_logged_client = tools tool_client"
  "transport toolcall_logged_client = transport connected_client"
  "audioStreamer toolcall_logged_client = Some []"
  "date_reads toolcall_logged_client = 2"
  "date_source toolcall_logged_client = (\<lambda>n. n)"
  "muted (state toolcall_logged_client) = False"
  "events (state toolcall_logged_client) =
     [\<lparr>ev_type = Open, timestamp = 0, ev_data = NoData\<rparr>,
      \<lparr>ev_type = Toolcall, timestamp = 1,
       ev_data = ToolCallData \<lparr>functionCalls = Some [weather_call ''a'', weather_call ''b'']\<rparr>\<rparr>]"
  by (simp_all add: toolcall_logged_client_def addEvent_def updateState_def Let_def
      tool_client_def connected_client_fields log_append_def)

text \<open>
  C6 fails in the code for the send of the tool response. A tool call with two
  calls arrives on a connected client; \<open>handleToolCalls\<close> passes its guard and
  awaits the provider, which resolves with two responses; meanwhile
  \<open>disconnect\<close> drops the session. When \<open>handleToolCalls\<close> resumes, the
  session handle is absent: nothing is sent, but the log receives an error entry
  and the state changes, where the claim allows neither.
\<close>

theorem tool_response_after_disconnect:
  "handleToolCalls_begin [weather_call ''a'', weather_call ''b''] toolcall_logged_client =
     Some (Inr weather_answers)
   \<and> fst (disconnect toolcall_logged_client) = True
   \<and> session dropped_session_client = None
   \<and> events (state dropped_session_client) =
       [\<lparr>ev_type = Open, timestamp = 0, ev_data = NoData\<rparr>,
        \<lparr>ev_type = Toolcall, timestamp = 1,
         ev_data = ToolCallData \<lparr>functionCalls = Some [weather_call ''a'', weather_call ''b'']\<rparr>\<rparr>,
        \<lparr>ev_type = Close, timestamp = 2, ev_data = CloseReason ''User disconnected''\<rparr>]
   \<and> transport (handleToolCalls_end (Inr weather_answers) dropped_session_client) =
       transport dropped_session_client
   \<and> events (state (handleToolCalls_end (Inr weather_answers) dropped_session_client)) =
       events (state dropped_session_client) @
         [\<lparr>ev_type = Error, timestamp = 3,
           ev_data = ErrorData ''Tool call failed'' (JsError ''TypeError'')\<rparr>]
   \<and> handleToolCalls_end (Inr weather_answers) dropped_session_client \<noteq> dropped_session_client"
proof -
  have b: "handleToolCalls_begin [weather_call ''a'', weather_call ''b''] toolcall_logged_client =
     Some (Inr weather_answers)"
    by (simp add: handleToolCalls_begin_def toolcall_logged_client_fields
        tool_client_fields named_tool_def weather_call_def weather_answers_def)
  have d: "disconnect toolcall_logged_client =
      (True, addEvent Close (CloseReason ''User disconnected'')
         (streamer_call StopStreamer
           (recorder_stop
             (setConnected False
               ((transport_call (CloseSession 7) toolcall_logged_client)\<lparr>session := None\<rparr>)))))"
    by (simp add: disconnect_def toolcall_logged_client_fields Let_def)
  have s: "session dropped_session_client = None"
    by (simp add: dropped_session_client_def d addEvent_frame streamer_call_frame
        recorder_stop_def setConnected_def updateState_def transport_call_def Let_def)
  have r: "date_reads dropped_session_client = 3" "date_source dropped_session_client = (\<lambda>n. n)"
    by (simp_all add: dropped_session_client_def d addEvent_frame streamer_call_frame
        recorder_stop_def setConnected_def updateState_def transport_call_def Let_def
        toolcall_logged_client_fields)
  have e: "events (state dropped_session_client) =
       [\<lparr>ev_type = Open, timestamp = 0, ev_data = NoData\<rparr>,
        \<lparr>ev_type = Toolcall, timestamp = 1,
         ev_data = ToolCallData \<lparr>functionCalls = Some [weather_call ''a'', weather_call ''b'']\<rparr>\<rparr>,
        \<lparr>ev_type = Close, timestamp = 2, ev_data = CloseReason ''User disconnected''\<rparr>]"
    by (simp add: dropped_session_client_def d events_addEvent addEvent_frame streamer_call_frame
        recorder_stop_def setConnected_def updateState_def transport_call_def Let_def
        toolcall_logged_client_fields log_append_def)
  have n: "toFunctionResponses weather_answers \<noteq> []"
    by (simp add: toFunctionResponses_def weather_answers_def)
  have h: "handleToolCalls_end (Inr weather_answers) dropped_session_client =
      addEvent Error (ErrorData ''Tool call failed'' (JsError ''TypeError'')) dropped_session_client"
    using handleToolCalls_send_no_session [OF s n] by (simp add: handleToolCalls_end_def)
  have t: "transport (handleToolCalls_end (Inr weather_answers) dropped_session_client) =
       transport dropped_session_client"
    by (simp add: h addEvent_frame)
  have l: "events (state (handleToolCalls_end (Inr weather_answers) dropped_session_client)) =
       events (state dropped_session_client) @
         [\<lparr>ev_type = Error, timestamp = 3,
           ev_data = ErrorData ''Tool call failed'' (JsError ''TypeError'')\<rparr>]"
    by (simp add: h events_addEvent r e log_append_def)
  have ne: "handleToolCalls_end (Inr weather_answers) dropped_session_client \<noteq> dropped_session_client"
  proof
    assume "handleToolCalls_end (Inr weather_answers) dropped_session_client = dropped_session_client"
    then have "events (state (handleToolCalls_end (Inr weather_answers) dropped_session_client)) =
        events (state dropped_session_client)"
      by simp
    then show False
      by (simp add: l)
  qed
  from b d s e t l ne show ?thesis
    by simp
qed

section \<open>Realtime input\<close>

text \<open>\<open>js_includes\<close> is the substring test.\<close>

lemma js_includes_sublist: "js_includes s sub \<longleftrightarrow> sublist sub s"
  by (induction s) (auto simp: sublist_Cons_right)

lemma send_chunks_flags:
  "fst (send_chunks h chunks (a, v) c) =
     (a \<or> (\<exists>ch \<in> set chunks. js_includes (chunk_mimeType ch) ''audio''),
      v \<or> (\<exists>ch \<in> set chunks. js_includes (chunk_mimeType ch) ''image''))"
  by (induction h chunks "(a, v)" c arbitrary: a v rule: send_chunks.induct)
     (auto simp add: Let_def)

lemma send_chunks_frame:
  "snd (send_chunks h chunks fl c) =
     c\<lparr>transport := transport c @ map (\<lambda>ch. SendRealtimeInput h (media_blob ch)) chunks\<rparr>"
  by (induction h chunks fl c rule: send_chunks.induct)
     (simp_all add: transport_call_def Let_def)

lemma sendRealtimeInput_eq:
  assumes "session c = Some h"
  shows "sendRealtimeInput chunks c =
     addEvent Client_realtimeInput
       (RealtimeInputData
          (mediaType_of (\<exists>ch \<in> set chunks. js_includes (chunk_mimeType ch) ''audio'')
                        (\<exists>ch \<in> set chunks. js_includes (chunk_mimeType ch) ''image'')))
       (c\<lparr>transport := transport c @ map (\<lambda>ch. SendRealtimeInput h (media_blob ch)) chunks\<rparr>)"
proof -
  obtain fl c1 where sc: "send_chunks h chunks (False, False) c = (fl, c1)"
    by (cases "send_chunks h chunks (False, False) c")
  have fl: "fl = ((\<exists>ch \<in> set chunks. js_includes (chunk_mimeType ch) ''audio''),
                  (\<exists>ch \<in> set chunks. js_includes (chunk_mimeType ch) ''image''))"
    using send_chunks_flags [of h chunks False False c] sc by simp
  have c1: "c1 = c\<lparr>transport := transport c @ map (\<lambda>ch. SendRealtimeInput h (media_blob ch)) chunks\<rparr>"
    using send_chunks_frame [of h chunks "(False, False)" c] sc by simp
  show ?thesis
    using assms sc by (simp add: sendRealtimeInput_def fl c1)
qed

lemma sendRealtimeInput_transport:
  "session c = Some h \<Longrightarrow>
     transport (sendRealtimeInput chunks c) =
       transport c @ map (\<lambda>ch. SendRealtimeInput h (media_blob ch)) chunks"
  by (simp add: sendRealtimeInput_eq addEvent_frame)

text \<open>
  C7, as the code has it. With a session open, \<open>sendRealtimeInput chunks\<close>
  sends every chunk over the transport, one message per chunk in order, and
  appends exactly one log entry. Its classification is \<open>audio+video\<close> when
  some chunk's media type contains \<open>audio\<close> and some chunk's contains
  \<open>image\<close>, \<open>audio\<close> when only the first holds, \<open>video\<close> when only the
  second holds, and \<open>unknown\<close> otherwise. For an \<open>audio/pcm;rate=16000\<close> chunk and an
  \<open>image/jpeg\<close> chunk the entry says \<open>audio+video\<close>.
\<close>

theorem sendRealtimeInput_summary:
  assumes "session c = Some h"
    and "hasAudio = (\<exists>ch \<in> set chunks. js_includes (chunk_mimeType ch) ''audio'')"
    and "hasVideo = (\<exists>ch \<in> set chunks. js_includes (chunk_mimeType ch) ''image'')"
  shows "transport (sendRealtimeInput chunks c) =
           transport c @ map (\<lambda>ch. SendRealtimeInput h (media_blob ch)) chunks
         \<and> events (state (sendRealtimeInput chunks c)) =
             log_append (events (state c))
               \<lparr>ev_type = Client_realtimeInput, timestamp = date_source c (date_reads c),
                ev_data = RealtimeInputData
                  (if hasAudio \<and> hasVideo then ''audio+video''
                   else if hasAudio then ''audio''
                   else if hasVideo then ''video''
                   else ''unknown'')\<rparr>
         \<and> events (state (sendRealtimeInput
               [\<lparr>chunk_mimeType = ''audio/pcm;rate=16000'', chunk_data = d1\<rparr>,
                \<lparr>chunk_mimeType = ''image/jpeg'', chunk_data = d2\<rparr>] c)) =
             log_append (events (state c))
               \<lparr>ev_type = Client_realtimeInput, timestamp = date_source c (date_reads c),
                ev_data = RealtimeInputData ''audio+video''\<rparr>"
proof (intro conjI)
  show "transport (sendRealtimeInput chunks c) =
           transport c @ map (\<lambda>ch. SendRealtimeInput h (media_blob ch)) chunks"
    using assms(1) by (rule sendRealtimeInput_transport)
next
  show "events (state (sendRealtimeInput chunks c)) =
             log_append (events (state c))
               \<lparr>ev_type = Client_realtimeInput, timestamp = date_source c (date_reads c),
                ev_data = RealtimeInputData
                  (if hasAudio \<and> hasVideo then ''audio+video''
                   else if hasAudio then ''audio''
                   else if hasVideo then ''video''
                   else ''unknown'')\<rparr>"
    unfolding sendRealtimeInput_eq [OF assms(1)] assms(2) assms(3)
    by (simp add: events_addEvent mediaType_of_def)
next
  show "events (state (sendRealtimeInput
               [\<lparr>chunk_mimeType = ''audio/pcm;rate=16000'', chunk_data = d1\<rparr>,
                \<lparr>chunk_mimeType = ''image/jpeg'', chunk_data = d2\<rparr>] c)) =
             log_append (events (state c))
               \<lparr>ev_type = Client_realtimeInput, timestamp = date_source c (date_reads c),
                ev_data = RealtimeInputData ''audio+video''\<rparr>"
    unfolding sendRealtimeInput_eq [OF assms(1)]
    by (simp add: events_addEvent mediaType_of_def)
qed

theorem sendRealtimeInput_summary_witness:
  "session connected_client = Some 7
   \<and> transport (sendRealtimeInput
        [\<lparr>chunk_mimeType = ''audio/pcm;rate=16000'', chunk_data = ''AAAA''\<rparr>,
         \<lparr>chunk_mimeType = ''video/mp4'', chunk_data = ''BBBB''\<rparr>] connected_client) =
       [LiveConnect ''models/gemini-2.5-flash-preview-native-audio-dialog'' default_config,
        SendRealtimeInput 7 \<lparr>mimeType = Some ''audio/pcm;rate=16000'', data = Some ''AAAA''\<rparr>,
        SendRealtimeInput 7 \<lparr>mimeType = Some ''video/mp4'', data = Some ''BBBB''\<rparr>]
   \<and> events (state (sendRealtimeInput
        [\<lparr>chunk_mimeType = ''audio/pcm;rate=16000'', chunk_data = ''AAAA''\<rparr>,
         \<lparr>chunk_mimeType = ''video/mp4'', chunk_data = ''BBBB''\<rparr>] connected_client)) =
       [\<lparr>ev_type = Open, timestamp = 0, ev_data = NoData\<rparr>,
        \<lparr>ev_type = Client_realtimeInput, timestamp = 1, ev_data = RealtimeInputData ''audio''\<rparr>]
   \<and> events (state (sendRealtimeInput
        [\<lparr>chunk_mimeType = ''audio/pcm;rate=16000'', chunk_data = ''AAAA''\<rparr>,
         \<lparr>chunk_mimeType = ''image/jpeg'', chunk_data = ''CCCC''\<rparr>] connected_client)) =
       [\<lparr>ev_type = Open, timestamp = 0, ev_data = NoData\<rparr>,
        \<lparr>ev_type = Client_realtimeInput, timestamp = 1,
         ev_data = RealtimeInputData ''audio+video''\<rparr>]"
proof -
  have h: "session connected_client = Some 7"
    by (rule connected_client_fields)
  show ?thesis
    using h sendRealtimeInput_summary [OF h refl refl,
        of "[\<lparr>chunk_mimeType = ''audio/pcm;rate=16000'', chunk_data = ''AAAA''\<rparr>,
             \<lparr>chunk_mimeType = ''video/mp4'', chunk_data = ''BBBB''\<rparr>]" "''AAAA''" "''CCCC''"]
    by (simp add: connected_client_fields media_blob_def log_append_def)
qed

text \<open>
  A media type that says video without containing \<open>image\<close> does not count as
  video: an audio chunk with a \<open>video/mp4\<close> chunk is logged as \<open>audio\<close>,
  and a \<open>video/mp4\<close> chunk alone as \<open>unknown\<close>.
\<close>

theorem sendRealtimeInput_video_counterexample:
  "events (state (sendRealtimeInput
        [\<lparr>chunk_mimeType = ''audio/pcm;rate=16000'', chunk_data = ''AAAA''\<rparr>,
         \<lparr>chunk_mimeType = ''video/mp4'', chunk_data = ''BBBB''\<rparr>] connected_client)) =
       [\<lparr>ev_type = Open, timestamp = 0, ev_data = NoData\<rparr>,
        \<lparr>ev_type = Client_realtimeInput, timestamp = 1, ev_data = RealtimeInputData ''audio''\<rparr>]
   \<and> events (state (sendRealtimeInput
        [\<lparr>chunk_mimeType = ''video/mp4'', chunk_data = ''BBBB''\<rparr>] connected_client)) =
       [\<lparr>ev_type = Open, timestamp = 0, ev_data = NoData\<rparr>,
        \<lparr>ev_type = Client_realtimeInput, timestamp = 1,
         ev_data = RealtimeInputData ''unknown''\<rparr>]"
  by (simp add: sendRealtimeInput_eq [OF connected_client_fields(1)] events_addEvent
      mediaType_of_def connected_client_fields log_append_def)

section \<open>Muting\<close>

text \<open>
  C8. \<open>setMuted m\<close> on a connected client: the state becomes the old state
  with \<open>muted\<close> set to \<open>m\<close> (so \<open>connected\<close> stays true and model,
  configuration and log are as before), the listener is told, and the recorder
  receives \<open>stop\<close> for \<open>m = true\<close> and \<open>start\<close> for \<open>m = false\<close>. The
  session handle, the transport (no close) and everything else are unchanged.
\<close>

theorem setMuted_connected:
  "connected (state c) \<Longrightarrow>
     setMuted m c =
       c\<lparr>state := (state c)\<lparr>muted := m\<rparr>,
         onStateChange := map_option (\<lambda>calls. calls @ [(state c)\<lparr>muted := m\<rparr>]) (onStateChange c),
         audioRecorder := audioRecorder c @ [if m then StopRecorder else StartRecorder]\<rparr>"
  by (cases "onStateChange c")
     (simp_all add: setMuted_def updateState_def recorder_stop_def recorder_start_def Let_def)

theorem setMuted_connected_witness:
  "connected (state connected_client)
   \<and> muted (state (setMuted True connected_client))
   \<and> connected (state (setMuted True connected_client))
   \<and> session (setMuted True connected_client) = Some 7
   \<and> transport (setMuted True connected_client) = transport connected_client
   \<and> events (state (setMuted True connected_client)) = events (state connected_client)
   \<and> audioRecorder (setMuted True connected_client) = [StartRecorder, StopRecorder]
   \<and> audioRecorder (setMuted False connected_client) = [StartRecorder, StartRecorder]"
proof -
  have h: "connected (state connected_client)"
    by (rule connected_client_fields)
  show ?thesis
    using h setMuted_connected [OF h, of True] setMuted_connected [OF h, of False]
    by (simp add: connected_client_fields)
qed

section \<open>Snapshots and sharing\<close>

lemma wf_new_store_client: "wf_store (new_store_client l)"
  by (simp add: wf_store_def new_store_client_def get_state_obj_def get_array_def)

text \<open>
  On a well-formed store \<open>addEvent\<close> does to the client's state what it does in
  the sections above, and keeps the store well formed.
\<close>

lemma addEvent_ref_refines:
  assumes "wf_store sc"
  shows "internal_state (addEvent_ref e sc) =
           map_option (\<lambda>s. s\<lparr>events := log_append (events s) e\<rparr>) (internal_state sc)
         \<and> wf_store (addEvent_ref e sc)"
  using assms
  by (auto simp add: wf_store_def addEvent_ref_def events_getter_def updateState_ref_def alloc_def
      get_state_obj_def get_array_def snapshot_at_def internal_state_def log_append_def Let_def
      split: option.splits obj.splits)

lemma getState_copy:
  assumes "wf_store sc" "getState sc = Some (a, sc1)"
  shows "a = fresh sc" "a \<noteq> this_state sc" "this_state sc1 = this_state sc"
    "get_state_obj a sc1 = get_state_obj (this_state sc) sc"
    "snapshot_at a sc1 = internal_state sc" "internal_state sc1 = internal_state sc"
    "internal_state (assign_field a f sc1) = internal_state sc"
  using assms
  by (auto simp add: wf_store_def getState_def alloc_def get_state_obj_def get_array_def
      snapshot_at_def internal_state_def assign_field_def
      split: option.splits obj.splits)

lemma logged_store_client_wf: "wf_store logged_store_client"
  unfolding logged_store_client_def
  using addEvent_ref_refines [OF wf_new_store_client] by blast

lemma getState_logged_store_client:
  "getState logged_store_client = Some (snapshot_addr, snapshot_store)"
  by (simp add: snapshot_addr_def snapshot_store_def getState_def
      logged_store_client_def addEvent_ref_def events_getter_def updateState_ref_def
      alloc_def get_state_obj_def get_array_def new_store_client_def)

text \<open>
  C9, as the code has it. \<open>getState\<close> returns a new object with the values of
  the state's fields: the snapshot denotes the client's state, and whatever an
  outside caller assigns to the snapshot's fields, the client's state, its log
  included, is as before. The guarantee is for the snapshot object that
  \<open>getState\<close> returns and for assignments to its fields.
\<close>

theorem getState_shallow_copy:
  assumes "wf_store sc" "getState sc = Some (a, sc1)"
  shows "snapshot_at a sc1 = internal_state sc
       \<and> internal_state (assign_field a f sc1) = internal_state sc
       \<and> internal_state sc \<noteq> None"
  using assms getState_copy [OF assms]
  by (auto simp add: wf_store_def internal_state_def snapshot_at_def split: option.splits)

theorem getState_shallow_copy_witness:
  "wf_store logged_store_client
   \<and> getState logged_store_client = Some (snapshot_addr, snapshot_store)
   \<and> snapshot_at snapshot_addr snapshot_store = internal_state logged_store_client
   \<and> internal_state (assign_connected snapshot_addr True snapshot_store) =
        internal_state logged_store_client
   \<and> internal_state logged_store_client \<noteq> None"
  using logged_store_client_wf getState_logged_store_client
    getState_shallow_copy [OF logged_store_client_wf getState_logged_store_client,
      of "\<lambda>s. s\<lparr>o_connected := True\<rparr>"]
  by (simp add: assign_connected_def)

text \<open>
  The snapshot's log is the client's own array (reference 2), and so is the value
  of the \<open>events\<close> getter: a push on it changes the client's state. The object
  handed to the listener is the client's state object itself: assigning to its
  \<open>connected\<close> field changes the client's state.
\<close>

theorem shared_references_counterexample:
  "getState logged_store_client = Some (snapshot_addr, snapshot_store)
   \<and> snapshot_at snapshot_addr snapshot_store = internal_state snapshot_store
   \<and> map_option o_events (get_state_obj snapshot_addr snapshot_store) = Some 2
   \<and> internal_state (array_push 2 intruder snapshot_store) \<noteq> internal_state snapshot_store
   \<and> events_getter logged_store_client = Some 2
   \<and> internal_state (array_push 2 intruder logged_store_client) \<noteq> internal_state logged_store_client
   \<and> listener logged_store_client = Some [this_state logged_store_client]
   \<and> internal_state (assign_connected (this_state logged_store_client) True logged_store_client)
        \<noteq> internal_state logged_store_client"
  by (simp add: snapshot_addr_def snapshot_store_def getState_def
      logged_store_client_def addEvent_ref_def events_getter_def updateState_ref_def
      alloc_def get_state_obj_def get_array_def snapshot_at_def internal_state_def
      new_store_client_def array_push_def mutate_array_def assign_connected_def assign_field_def
      intruder_def)

section \<open>Microphone frames\<close>

text \<open>
  C10, as the code has it. On a frame from the recorder a realtime-input message
  with the frame is sent exactly when \<open>connected\<close> is true, \<open>muted\<close> is false
  and a session handle is present; in every other case the frame is dropped and
  the client is as before: no state change, no log entry.
\<close>

theorem recorder_data_forwarded:
  "(connected (state c) \<and> \<not> muted (state c) \<and> session c = Some h \<longrightarrow>
      transport (on_recorder_data base64 c) =
        transport c @
          [SendRealtimeInput h \<lparr>mimeType = Some ''audio/pcm;rate=16000'', data = Some base64\<rparr>])
   \<and> (\<not> (connected (state c) \<and> \<not> muted (state c) \<and> session c \<noteq> None) \<longrightarrow>
        on_recorder_data base64 c = c)"
proof (intro conjI impI)
  assume "connected (state c) \<and> \<not> muted (state c) \<and> session c = Some h"
  then show "transport (on_recorder_data base64 c) =
        transport c @
          [SendRealtimeInput h \<lparr>mimeType = Some ''audio/pcm;rate=16000'', data = Some base64\<rparr>]"
    by (simp add: on_recorder_data_def sendRealtimeInput_transport media_blob_def)
next
  assume "\<not> (connected (state c) \<and> \<not> muted (state c) \<and> session c \<noteq> None)"
  then show "on_recorder_data base64 c = c"
    by (auto simp add: on_recorder_data_def sendRealtimeInput_def)
qed

theorem recorder_data_forwarded_witness:
  "connected (state connected_client) \<and> \<not> muted (state connected_client)
   \<and> session connected_client = Some 7
   \<and> transport (on_recorder_data ''AAAA'' connected_client) =
       transport connected_client @
         [SendRealtimeInput 7 \<lparr>mimeType = Some ''audio/pcm;rate=16000'', data = Some ''AAAA''\<rparr>]
   \<and> \<not> connected (state idle_client)
   \<and> on_recorder_data ''AAAA'' idle_client = idle_client"
proof -
  have h: "connected (state connected_client) \<and> \<not> muted (state connected_client)
      \<and> session connected_client = Some 7"
    by (simp add: connected_client_fields)
  have i: "\<not> connected (state idle_client)"
    by (simp add: idle_client_eq)
  show ?thesis
    using h i recorder_data_forwarded [of connected_client 7 "''AAAA''"]
      recorder_data_forwarded [of idle_client 7 "''AAAA''"]
    by simp
qed

text \<open>
  The transport calls \<open>onopen\<close> while \<open>connect\<close> still waits for the session:
  the client is connected and not muted, the recorder has been started, and there
  is no session handle yet; there is none either when \<open>connect\<close> then resumes
  with a failure. A frame arriving in these states is dropped.
\<close>

theorem recorder_data_counterexample:
  "connected (state early_open_client) \<and> \<not> muted (state early_open_client)
   \<and> audioRecorder early_open_client = [StartRecorder]
   \<and> on_recorder_data ''AAAA'' early_open_client = early_open_client
   \<and> connected (state failed_open_client) \<and> \<not> muted (state failed_open_client)
   \<and> on_recorder_data ''AAAA'' failed_open_client = failed_open_client"
  by (simp add: early_open_client_fields failed_open_client_fields on_recorder_data_def
      sendRealtimeInput_def)

end
